theory Spec2Isabelle
  imports Complex_Main "HOL-Library.AList"
begin

section \<open>Numbers as text\<close>

text \<open>
  JavaScript numbers are IEEE doubles. They are idealised here: counts are \<open>nat\<close>,
  millisecond clock readings and their differences are \<open>int\<close>, a pace is an exact
  \<open>rat\<close>, a sensor reading an exact \<open>real\<close>. Rounding of the binary representation is
  not part of the model. The text of a number is a \<open>string\<close> of 8-bit characters.
\<close>

definition char_code :: "char \<Rightarrow> nat" where
  "char_code c = of_char c"

definition is_digit :: "char \<Rightarrow> bool" where
  "is_digit c = (48 \<le> char_code c \<and> char_code c \<le> 57)"

definition digit_val :: "char \<Rightarrow> nat" where
  "digit_val c = char_code c - 48"

definition digit_char :: "nat \<Rightarrow> char" where
  "digit_char d = char_of (48 + d)"

function show_nat :: "nat \<Rightarrow> string" where
  "show_nat n = (if n < 10 then [digit_char n] else show_nat (n div 10) @ [digit_char (n mod 10)])"
  by pat_completeness auto
termination
  by (relation "measure id") auto

declare show_nat.simps [simp del]

definition nat_of_digits :: "string \<Rightarrow> nat" where
  "nat_of_digits ds = foldl (\<lambda>a c. 10 * a + digit_val c) 0 ds"

text \<open>
  \<open>Number.prototype.toString\<close> on a finite number, in positional notation: sign, integer
  digits, and the digits of the fraction when there is one (at most 17 of them; the host
  prints no more than 17 significant digits). The exponent notation the host switches to
  at \<open>1e21\<close> and below \<open>1e-6\<close> is not modelled.
\<close>

fun frac_digits :: "nat \<Rightarrow> rat \<Rightarrow> string" where
  "frac_digits 0 f = []"
| "frac_digits (Suc k) f =
     (if f = 0 then []
      else let d = nat \<lfloor>10 * f\<rfloor> in digit_char d # frac_digits k (10 * f - of_nat d))"

definition show_number :: "rat \<Rightarrow> string" where
  "show_number q =
     (let a = \<bar>q\<bar>; f = a - of_int \<lfloor>a\<rfloor>
      in (if q < 0 then ''-'' else []) @ show_nat (nat \<lfloor>a\<rfloor>) @
         (if f = 0 then [] else ''.'' @ frac_digits 17 f))"

text \<open>
  \<open>x.toFixed(1)\<close>: with \<open>n\<close> the integer for which \<open>n / 10 - |x|\<close> is closest to zero
  (the larger one on a tie), the digits of \<open>n\<close> with a point before the last one, after
  a minus sign when \<open>x < 0\<close>.
\<close>

definition toFixed1 :: "rat \<Rightarrow> string" where
  "toFixed1 q =
     (let a = \<bar>q\<bar>; n = nat \<lfloor>a * 10 + 1 / 2\<rfloor>
      in (if q < 0 then ''-'' else []) @ show_nat (n div 10) @ ''.'' @ show_nat (n mod 10))"

definition is_ws :: "char \<Rightarrow> bool" where
  "is_ws c = (char_code c = 32 \<or> char_code c = 9 \<or> char_code c = 10 \<or> char_code c = 13)"

definition strip_sign :: "string \<Rightarrow> bool \<times> string" where
  "strip_sign s =
     (case s of
        [] \<Rightarrow> (False, s)
      | c # r \<Rightarrow> if c = CHR ''-'' then (True, r)
                 else if c = CHR ''+'' then (False, r)
                 else (False, s))"

text \<open>
  \<open>parseFloat\<close> on a text: leading white space, an optional sign, then the longest
  prefix of digits with an optional fraction. \<open>None\<close> is NaN: the text does not start
  with a number. Exponents and the word Infinity are not modelled.
\<close>

definition parseFloat :: "string \<Rightarrow> rat option" where
  "parseFloat s =
     (let (neg, u) = strip_sign (dropWhile is_ws s);
          ip = takeWhile is_digit u;
          fp = (case dropWhile is_digit u of
                  [] \<Rightarrow> []
                | c # r \<Rightarrow> if c = CHR ''.'' then takeWhile is_digit r else [])
      in if ip = [] \<and> fp = [] then None
         else Some ((if neg then - 1 else 1) *
                    (of_nat (nat_of_digits ip) + of_nat (nat_of_digits fp) / 10 ^ length fp)))"

text \<open>A value that is either a number or a text, with the host's conversion to text.\<close>

datatype jsval = Num rat | Str string

fun ToString :: "jsval \<Rightarrow> string" where
  "ToString (Num q) = show_number q"
| "ToString (Str s) = s"

section \<open>JSON\<close>

datatype json = JNull | JBool bool | JNum rat | JStr string
  | JArr "json list" | JObj "(string \<times> json) list"

subsection \<open>\<open>JSON.stringify\<close>\<close>

definition hex_char :: "nat \<Rightarrow> char" where
  "hex_char d = (if d < 10 then char_of (48 + d) else char_of (87 + d))"

definition quote_char :: "char \<Rightarrow> string" where
  "quote_char c =
     (let n = char_code c
      in if n = 34 then [CHR 0x5C, CHR 0x22]
         else if n = 92 then [CHR 0x5C, CHR 0x5C]
         else if n = 8 then [CHR 0x5C, CHR ''b'']
         else if n = 9 then [CHR 0x5C, CHR ''t'']
         else if n = 10 then [CHR 0x5C, CHR ''n'']
         else if n = 12 then [CHR 0x5C, CHR ''f'']
         else if n = 13 then [CHR 0x5C, CHR ''r'']
         else if n < 32 then
           [CHR 0x5C, CHR ''u'', CHR ''0'', CHR ''0'', hex_char (n div 16), hex_char (n mod 16)]
         else [c])"

definition quote :: "string \<Rightarrow> string" where
  "quote s = CHR 0x22 # concat (map quote_char s) @ [CHR 0x22]"

fun intersperse_comma :: "string list \<Rightarrow> string" where
  "intersperse_comma [] = []"
| "intersperse_comma [x] = x"
| "intersperse_comma (x # y # ys) = x @ '','' @ intersperse_comma (y # ys)"

fun JSON_stringify :: "json \<Rightarrow> string" where
  "JSON_stringify JNull = ''null''"
| "JSON_stringify (JBool b) = (if b then ''true'' else ''false'')"
| "JSON_stringify (JNum q) = show_number q"
| "JSON_stringify (JStr s) = quote s"
| "JSON_stringify (JArr vs) = ''['' @ intersperse_comma (map JSON_stringify vs) @ '']''"
| "JSON_stringify (JObj ms) =
     ''{'' @ intersperse_comma (map (\<lambda>m. quote (fst m) @ '':'' @ JSON_stringify (snd m)) ms) @ ''}''"

subsection \<open>\<open>JSON.parse\<close>\<close>

text \<open>
  The JSON grammar: white space between tokens, the three literals, numbers with
  fraction and exponent, texts with escapes, arrays and objects. A result \<open>None\<close> is the
  SyntaxError the host throws. Texts are 8-bit here, so an escape \<open>\uXXXX\<close> above
  \<open>00ff\<close> has no value in the model and is refused.
\<close>

definition hex_val :: "char \<Rightarrow> nat option" where
  "hex_val c =
     (let n = char_code c
      in if 48 \<le> n \<and> n \<le> 57 then Some (n - 48)
         else if 97 \<le> n \<and> n \<le> 102 then Some (n - 87)
         else if 65 \<le> n \<and> n \<le> 70 then Some (n - 55)
         else None)"

definition hex4 :: "char \<Rightarrow> char \<Rightarrow> char \<Rightarrow> char \<Rightarrow> nat option" where
  "hex4 a b c d =
     (case (hex_val a, hex_val b, hex_val c, hex_val d) of
        (Some x, Some y, Some z, Some w) \<Rightarrow> Some (((x * 16 + y) * 16 + z) * 16 + w)
      | _ \<Rightarrow> None)"

definition unescape :: "char \<Rightarrow> char option" where
  "unescape e =
     (if e = CHR 0x22 \<or> e = CHR 0x5C \<or> e = CHR ''/'' then Some e
      else if e = CHR ''b'' then Some (CHR 0x08)
      else if e = CHR ''f'' then Some (CHR 0x0C)
      else if e = CHR ''n'' then Some (CHR 0x0A)
      else if e = CHR ''r'' then Some (CHR 0x0D)
      else if e = CHR ''t'' then Some (CHR 0x09)
      else None)"

text \<open>The characters of a text after its opening quote, up to the closing one.\<close>

fun parse_chars :: "string \<Rightarrow> (string \<times> string) option" where
  "parse_chars [] = None"
| "parse_chars (c # cs) =
     (if c = CHR 0x22 then Some ([], cs)
      else if c = CHR 0x5C then
        (case cs of
           [] \<Rightarrow> None
         | e # r \<Rightarrow>
             if e = CHR ''u'' then
               (case r of
                  h1 # h2 # h3 # h4 # r' \<Rightarrow>
                    (case hex4 h1 h2 h3 h4 of
                       None \<Rightarrow> None
                     | Some n \<Rightarrow>
                         if n < 256 then
                           (case parse_chars r' of
                              None \<Rightarrow> None
                            | Some (s, t) \<Rightarrow> Some (char_of n # s, t))
                         else None)
                | _ \<Rightarrow> None)
             else
               (case unescape e of
                  None \<Rightarrow> None
                | Some x \<Rightarrow>
                    (case parse_chars r of
                       None \<Rightarrow> None
                     | Some (s, t) \<Rightarrow> Some (x # s, t))))
      else if char_code c < 32 then None
      else (case parse_chars cs of
              None \<Rightarrow> None
            | Some (s, t) \<Rightarrow> Some (c # s, t)))"

fun strip_prefix :: "string \<Rightarrow> string \<Rightarrow> string option" where
  "strip_prefix [] s = Some s"
| "strip_prefix (p # ps) [] = None"
| "strip_prefix (p # ps) (c # cs) = (if p = c then strip_prefix ps cs else None)"

text \<open>
  The parts of a number: the minus sign, the integer digits (a leading 0 stands alone), the
  fraction after a point, and the exponent after \<open>e\<close> or \<open>E\<close>.
\<close>

definition strip_minus :: "string \<Rightarrow> bool \<times> string" where
  "strip_minus s =
     (case s of
        [] \<Rightarrow> (False, s)
      | c # r \<Rightarrow> if c = CHR ''-'' then (True, r) else (False, s))"

definition take_int_part :: "string \<Rightarrow> string" where
  "take_int_part s =
     (case s of
        [] \<Rightarrow> []
      | c # r \<Rightarrow> if c = CHR ''0'' then [c] else takeWhile is_digit s)"

definition take_fraction :: "string \<Rightarrow> string option \<times> string" where
  "take_fraction s =
     (case s of
        [] \<Rightarrow> (None, s)
      | c # r \<Rightarrow> if c = CHR ''.''
                 then (Some (takeWhile is_digit r), dropWhile is_digit r)
                 else (None, s))"

definition take_exponent :: "string \<Rightarrow> (bool \<times> string) option \<times> string" where
  "take_exponent s =
     (case s of
        [] \<Rightarrow> (None, s)
      | c # r \<Rightarrow> if c = CHR ''e'' \<or> c = CHR ''E''
                 then (let (eneg, r1) = strip_sign r
                       in (Some (eneg, takeWhile is_digit r1), dropWhile is_digit r1))
                 else (None, s))"

definition parse_number :: "string \<Rightarrow> (json \<times> string) option" where
  "parse_number s =
     (let (neg, s1) = strip_minus s;
          ip = take_int_part s1;
          (fp, s3) = take_fraction (drop (length ip) s1);
          (ex, s4) = take_exponent s3;
          m = of_nat (nat_of_digits ip) +
              (case fp of
                 None \<Rightarrow> 0
               | Some ds \<Rightarrow> of_nat (nat_of_digits ds) / 10 ^ length ds);
          sc = (case ex of
                  None \<Rightarrow> 1
                | Some (eneg, ds) \<Rightarrow> if eneg then 1 / 10 ^ nat_of_digits ds
                                      else 10 ^ nat_of_digits ds)
      in if ip = [] \<or> fp = Some [] \<or> (case ex of None \<Rightarrow> False | Some (eneg, ds) \<Rightarrow> ds = [])
         then None
         else Some (JNum ((if neg then - 1 else 1) * m * sc), s4))"

text \<open>A repeated key keeps its first position and takes the last value.\<close>

definition obj_of_members :: "(string \<times> json) list \<Rightarrow> json" where
  "obj_of_members ms = JObj (foldl (\<lambda>al (k, v). AList.update k v al) [] ms)"

lemma length_after_ws: "dropWhile is_ws s = c # r \<Longrightarrow> length r < length s"
proof -
  assume h: "dropWhile is_ws s = c # r"
  have "length (dropWhile is_ws s) \<le> length s"
    by (rule length_dropWhile_le)
  with h show ?thesis
    by simp
qed

text \<open>
  The tests \<open>length r < length s\<close> before the calls on a remainder are what the
  termination proof rests on; a remainder is always shorter, so they never fail.
\<close>

function parse_value :: "string \<Rightarrow> (json \<times> string) option"
  and parse_elems :: "string \<Rightarrow> (json list \<times> string) option"
  and parse_members :: "string \<Rightarrow> ((string \<times> json) list \<times> string) option"
where
  "parse_value s =
     (case dropWhile is_ws s of
        [] \<Rightarrow> None
      | c # r \<Rightarrow>
          if c = CHR ''['' then
            (case dropWhile is_ws r of
               [] \<Rightarrow> None
             | c' # r' \<Rightarrow>
                 if c' = CHR '']'' then Some (JArr [], r')
                 else (case parse_elems r of
                         None \<Rightarrow> None
                       | Some (vs, t) \<Rightarrow> Some (JArr vs, t)))
          else if c = CHR ''{'' then
            (case dropWhile is_ws r of
               [] \<Rightarrow> None
             | c' # r' \<Rightarrow>
                 if c' = CHR ''}'' then Some (JObj [], r')
                 else (case parse_members r of
                         None \<Rightarrow> None
                       | Some (ms, t) \<Rightarrow> Some (obj_of_members ms, t)))
          else if c = CHR 0x22 then
            (case parse_chars r of
               None \<Rightarrow> None
             | Some (str, t) \<Rightarrow> Some (JStr str, t))
          else if c = CHR ''t'' then
            (case strip_prefix ''rue'' r of None \<Rightarrow> None | Some t \<Rightarrow> Some (JBool True, t))
          else if c = CHR ''f'' then
            (case strip_prefix ''alse'' r of None \<Rightarrow> None | Some t \<Rightarrow> Some (JBool False, t))
          else if c = CHR ''n'' then
            (case strip_prefix ''ull'' r of None \<Rightarrow> None | Some t \<Rightarrow> Some (JNull, t))
          else parse_number (c # r))"
| "parse_elems s =
     (case parse_value s of
        None \<Rightarrow> None
      | Some (v, r) \<Rightarrow>
          (case dropWhile is_ws r of
             [] \<Rightarrow> None
           | c # r' \<Rightarrow>
               if c = CHR '']'' then Some ([v], r')
               else if c = CHR '','' \<and> length r' < length s then
                 (case parse_elems r' of
                    None \<Rightarrow> None
                  | Some (vs, t) \<Rightarrow> Some (v # vs, t))
               else None))"
| "parse_members s =
     (case dropWhile is_ws s of
        [] \<Rightarrow> None
      | q # r \<Rightarrow>
          if q \<noteq> CHR 0x22 then None
          else
            (case parse_chars r of
               None \<Rightarrow> None
             | Some (k, r1) \<Rightarrow>
                 (case dropWhile is_ws r1 of
                    [] \<Rightarrow> None
                  | c # r2 \<Rightarrow>
                      if c = CHR '':'' \<and> length r2 < length s then
                        (case parse_value r2 of
                           None \<Rightarrow> None
                         | Some (v, r3) \<Rightarrow>
                             (case dropWhile is_ws r3 of
                                [] \<Rightarrow> None
                              | d # r4 \<Rightarrow>
                                  if d = CHR ''}'' then Some ([(k, v)], r4)
                                  else if d = CHR '','' \<and> length r4 < length s then
                                    (case parse_members r4 of
                                       None \<Rightarrow> None
                                     | Some (ms, t) \<Rightarrow> Some ((k, v) # ms, t))
                                  else None))
                      else None)))"
  by pat_completeness auto
termination
  by (relation "measure (\<lambda>x. case x of Inl s \<Rightarrow> 2 * length s
                              | Inr (Inl s) \<Rightarrow> 2 * length s + 1
                              | Inr (Inr s) \<Rightarrow> 2 * length s + 1)")
     (auto dest: length_after_ws)

declare parse_value.simps [simp del] parse_elems.simps [simp del] parse_members.simps [simp del]

definition JSON_parse :: "string \<Rightarrow> json option" where
  "JSON_parse s =
     (case parse_value s of
        None \<Rightarrow> None
      | Some (v, r) \<Rightarrow> if dropWhile is_ws r = [] then Some v else None)"

section \<open>The tracker\<close>

subsection \<open>Data\<close>

text \<open>
  A walk as \<open>stopTracking\<close> builds it. \<open>stepsPerMinute\<close> is what \<open>parseFloat\<close>
  returned: \<open>None\<close> is NaN.
\<close>

record walk =
  date :: string
  duration :: int
  steps :: nat
  stepsPerMinute :: "rat option"

text \<open>A sensor reading; an axis the device does not report is \<open>None\<close>.\<close>

record acceleration =
  x_axis :: "real option"
  y_axis :: "real option"
  z_axis :: "real option"

record motion_event =
  accelerationIncludingGravity :: "acceleration option"

text \<open>
  The fields of the \<open>StepTracker\<close> object that its logic reads and writes.
  \<open>timerInterval\<close> and \<open>motionHandler\<close> say whether the interval and the listener are
  set; \<open>localStorage\<close> is the item stored under the key \<open>stepTrackerWalks\<close>. The page
  elements and the chart are left out.
\<close>

record tracker =
  isTracking :: bool
  startTime :: "int option"
  elapsedTime :: int
  stepCount :: nat
  timerInterval :: bool
  walks :: "walk list"
  lastStepTime :: int
  accelerationBuffer :: "real list"
  motionHandler :: bool
  currentPeriod :: string
  localStorage :: "string option"

text \<open>
  The three detection parameters are assigned once in the constructor and never
  written again.
\<close>

definition stepThreshold :: real where
  "stepThreshold = 12 / 10"

definition minStepInterval :: int where
  "minStepInterval = 250"

definition bufferSize :: nat where
  "bufferSize = 4"

definition constructor :: "string option \<Rightarrow> tracker" where
  "constructor stored =
     \<lparr>isTracking = False, startTime = None, elapsedTime = 0, stepCount = 0,
      timerInterval = False, walks = [], lastStepTime = 0, accelerationBuffer = [],
      motionHandler = False, currentPeriod = ''week'', localStorage = stored\<rparr>"

subsection \<open>The walk store\<close>

definition json_of_walk :: "walk \<Rightarrow> json" where
  "json_of_walk w =
     JObj [(''date'', JStr (date w)),
           (''duration'', JNum (of_int (duration w))),
           (''steps'', JNum (of_nat (steps w))),
           (''stepsPerMinute'', (case stepsPerMinute w of None \<Rightarrow> JNull | Some q \<Rightarrow> JNum q))]"

definition json_of_walks :: "walk list \<Rightarrow> json" where
  "json_of_walks ws = JArr (map json_of_walk ws)"

text \<open>
  The reading of a parsed value back as walks, by the four properties the program
  reads (\<open>w.date\<close>, \<open>w.duration\<close>, \<open>w.steps\<close>, \<open>w.stepsPerMinute\<close>). A value of another
  shape gives \<open>None\<close>.
\<close>

definition walk_of_json :: "json \<Rightarrow> walk option" where
  "walk_of_json v =
     (case v of
        JObj ms \<Rightarrow>
          (case (map_of ms ''date'', map_of ms ''duration'', map_of ms ''steps'',
                 map_of ms ''stepsPerMinute'') of
             (Some (JStr d), Some (JNum a), Some (JNum b), Some (JNum c)) \<Rightarrow>
               if of_int \<lfloor>a\<rfloor> = a \<and> of_int \<lfloor>b\<rfloor> = b \<and> 0 \<le> b
               then Some \<lparr>date = d, duration = \<lfloor>a\<rfloor>, steps = nat \<lfloor>b\<rfloor>, stepsPerMinute = Some c\<rparr>
               else None
           | _ \<Rightarrow> None)
      | _ \<Rightarrow> None)"

fun those_walks :: "json list \<Rightarrow> walk list option" where
  "those_walks [] = Some []"
| "those_walks (v # vs) =
     (case walk_of_json v of
        None \<Rightarrow> None
      | Some w \<Rightarrow> (case those_walks vs of None \<Rightarrow> None | Some ws \<Rightarrow> Some (w # ws)))"

definition walks_of_json :: "json \<Rightarrow> walk list option" where
  "walks_of_json v = (case v of JArr vs \<Rightarrow> those_walks vs | _ \<Rightarrow> None)"

definition saveWalk :: "tracker \<Rightarrow> walk \<Rightarrow> tracker" where
  "saveWalk st walkData =
     (let ws = walks st @ [walkData]
      in st\<lparr>walks := ws, localStorage := Some (JSON_stringify (json_of_walks ws))\<rparr>)"

datatype error = SyntaxError

text \<open>
  \<open>loadWalks\<close>: the value assigned to \<open>this.walks\<close>, or the exception that leaves the
  method. An absent item and the empty text are the two falsy values of \<open>saved\<close>.
\<close>

definition loadWalks :: "string option \<Rightarrow> error + json" where
  "loadWalks saved =
     (case saved of
        None \<Rightarrow> Inr (JArr [])
      | Some s \<Rightarrow>
          if s = [] then Inr (JArr [])
          else (case JSON_parse s of None \<Rightarrow> Inl SyntaxError | Some v \<Rightarrow> Inr v))"

text \<open>
  \<open>Array.prototype.splice(index, 1)\<close>: a negative index counts from the end, the start
  is clamped into \<open>0..length\<close>, and at most one element is removed from it.
\<close>

definition splice1 :: "int \<Rightarrow> 'a list \<Rightarrow> 'a list" where
  "splice1 index xs =
     (let len = int (length xs);
          start = (if index < 0 then max (len + index) 0 else min index len);
          deleteCount = min (max 1 0) (len - start)
      in take (nat start) xs @ drop (nat (start + deleteCount)) xs)"

definition deleteWalk :: "tracker \<Rightarrow> int \<Rightarrow> tracker" where
  "deleteWalk st index =
     (let ws = splice1 index (walks st)
      in st\<lparr>walks := ws, localStorage := Some (JSON_stringify (json_of_walks ws))\<rparr>)"







subsection \<open>The session\<close>

datatype permission = NotRequired | Granted | Denied | RequestFailed

definition startTracking :: "tracker \<Rightarrow> permission \<Rightarrow> int \<Rightarrow> tracker" where
  "startTracking st perm now =
     (if perm = Denied then st
      else st\<lparr>isTracking := True, startTime := Some now, elapsedTime := 0, stepCount := 0,
              accelerationBuffer := [], timerInterval := True, motionHandler := True\<rparr>)"

text \<open>
  The pace expression of \<open>updateTimer\<close> and \<open>stopTracking\<close>:
  \<open>t > 0 ? (n / (t / 60000)).toFixed(1) : 0\<close>, a text or the number 0.
\<close>

definition pace :: "nat \<Rightarrow> int \<Rightarrow> jsval" where
  "pace n t = (if t > 0 then Str (toFixed1 (of_nat n / (of_int t / 60000))) else Num 0)"

definition updateTimer :: "tracker \<Rightarrow> int \<Rightarrow> tracker" where
  "updateTimer st now =
     st\<lparr>elapsedTime := now - (case startTime st of None \<Rightarrow> 0 | Some t \<Rightarrow> t)\<rparr>"


definition stopTracking :: "tracker \<Rightarrow> string \<Rightarrow> tracker" where
  "stopTracking st nowISO =
     (let st1 = st\<lparr>isTracking := False, timerInterval := False, motionHandler := False\<rparr>;
          dur = elapsedTime st1;
          n = stepCount st1;
          spm = pace n dur
      in if dur > 1000
         then saveWalk st1 \<lparr>date = nowISO, duration = dur, steps = n,
                            stepsPerMinute = parseFloat (ToString spm)\<rparr>
         else st1)"

definition toggleTracking :: "tracker \<Rightarrow> permission \<Rightarrow> int \<Rightarrow> string \<Rightarrow> tracker" where
  "toggleTracking st perm now nowISO =
     (if isTracking st then stopTracking st nowISO else startTracking st perm now)"

subsection \<open>Step detection\<close>

definition registerStep :: "tracker \<Rightarrow> tracker" where
  "registerStep st = st\<lparr>stepCount := stepCount st + 1\<rparr>"

text \<open>\<open>v || 0\<close> on an axis value.\<close>

definition or_zero :: "real option \<Rightarrow> real" where
  "or_zero v = (case v of None \<Rightarrow> 0 | Some r \<Rightarrow> r)"

definition magnitude :: "acceleration \<Rightarrow> real" where
  "magnitude a = sqrt ((or_zero (x_axis a))\<^sup>2 + (or_zero (y_axis a))\<^sup>2 + (or_zero (z_axis a))\<^sup>2)"

text \<open>\<open>push\<close>, then one \<open>shift\<close> when the buffer has grown past \<open>bufferSize\<close>.\<close>

definition push_sample :: "real list \<Rightarrow> real \<Rightarrow> real list" where
  "push_sample buf m =
     (let b = buf @ [m]
      in if length b > bufferSize then (case b of [] \<Rightarrow> [] | _ # r \<Rightarrow> r) else b)"

text \<open>\<open>buf.reduce((a, b) => a + b, 0) / buf.length\<close>.\<close>

definition avgMagnitude :: "real list \<Rightarrow> real" where
  "avgMagnitude buf = foldl (\<lambda>a b. a + b) 0 buf / of_nat (length buf)"

definition handleMotion :: "tracker \<Rightarrow> motion_event \<Rightarrow> int \<Rightarrow> tracker" where
  "handleMotion st ev now =
     (if \<not> isTracking st then st
      else
        (case accelerationIncludingGravity ev of
           None \<Rightarrow> st
         | Some a \<Rightarrow>
             (let st1 = st\<lparr>accelerationBuffer := push_sample (accelerationBuffer st) (magnitude a)\<rparr>;
                  deltaAcc = \<bar>avgMagnitude (accelerationBuffer st1) - 98 / 10\<bar>
              in if deltaAcc > stepThreshold \<and> now - lastStepTime st1 > minStepInterval
                 then (registerStep st1)\<lparr>lastStepTime := now\<rparr>
                 else st1)))"

subsection \<open>History statistics\<close>






subsection \<open>Events\<close>

datatype event =
    StartTracking permission int
  | StopTracking string
  | UpdateTimer int
  | HandleMotion motion_event int
  | DeleteWalk int
  | SwitchPeriod string

fun fire :: "tracker \<Rightarrow> event \<Rightarrow> tracker" where
  "fire st (StartTracking perm now) = startTracking st perm now"
| "fire st (StopTracking nowISO) = stopTracking st nowISO"
| "fire st (UpdateTimer now) = updateTimer st now"
| "fire st (HandleMotion ev now) = handleMotion st ev now"
| "fire st (DeleteWalk index) = deleteWalk st index"
| "fire st (SwitchPeriod p) = st\<lparr>currentPeriod := p\<rparr>"

definition run :: "tracker \<Rightarrow> event list \<Rightarrow> tracker" where
  "run st evs = foldl fire st evs"

text \<open>The times of the motion events of a run at which a step was registered, in order.\<close>

fun step_times :: "tracker \<Rightarrow> event list \<Rightarrow> int list" where
  "step_times st [] = []"
| "step_times st (e # es) =
     (case e of
        HandleMotion ev now \<Rightarrow> if stepCount (fire st e) \<noteq> stepCount st then [now] else []
      | _ \<Rightarrow> []) @ step_times (fire st e) es"

section \<open>Printed numbers read back\<close>


















section \<open>The session: pace and stop\<close>




lemma pace_nonneg: "0 < t \<Longrightarrow> (0::rat) \<le> of_nat n / (of_int t / 60000)"
  by simp






text \<open>
  Claim C10. A motion event that reaches \<open>handleMotion\<close> while \<open>isTracking\<close> is false
  changes nothing: buffer, step count and \<open>lastStepTime\<close> stay as they are, for one event
  and for any run of them.
\<close>

theorem handleMotion_not_tracking:
  "\<not> isTracking st \<Longrightarrow>
     handleMotion st ev now = st \<and>
     foldl (\<lambda>s (e, t). handleMotion s e t) st evs = st"
proof -
  assume nt: "\<not> isTracking st"
  then have one: "\<And>e t. handleMotion st e t = st"
    by (simp add: handleMotion_def)
  have "foldl (\<lambda>s (e, t). handleMotion s e t) st evs = st"
    by (induction evs) (auto simp: one)
  with one show ?thesis by simp
qed

theorem handleMotion_not_tracking_witness:
  "\<not> isTracking (constructor None) \<and>
   handleMotion (constructor None)
     \<lparr>accelerationIncludingGravity = Some \<lparr>x_axis = Some 0, y_axis = Some 20, z_axis = None\<rparr>\<rparr> 5000
     = constructor None"
  using handleMotion_not_tracking
          [of "constructor None"
              "\<lparr>accelerationIncludingGravity = Some \<lparr>x_axis = Some 0, y_axis = Some 20, z_axis = None\<rparr>\<rparr>"
              5000 "[]"]
  by (simp add: constructor_def)

section \<open>Step detection: the interval between steps\<close>

lemma handleMotion_step:
  "(stepCount (handleMotion st ev now) = stepCount st \<and>
    lastStepTime (handleMotion st ev now) = lastStepTime st) \<or>
   (stepCount (handleMotion st ev now) = Suc (stepCount st) \<and>
    lastStepTime (handleMotion st ev now) = now \<and>
    now - lastStepTime st > minStepInterval)"
  by (auto simp: handleMotion_def registerStep_def Let_def split: option.splits)

lemma lastStepTime_fire_other:
  "(\<And>ev now. e \<noteq> HandleMotion ev now) \<Longrightarrow> lastStepTime (fire st e) = lastStepTime st"
  by (cases e)
     (auto simp: startTracking_def stopTracking_def saveWalk_def updateTimer_def deleteWalk_def Let_def)

lemma step_times_gap:
  "(\<forall>t \<in> set (step_times st es). t - lastStepTime st > minStepInterval) \<and>
   sorted_wrt (\<lambda>a b. b - a > minStepInterval) (step_times st es)"
proof (induction es arbitrary: st)
  case Nil
  show ?case by simp
next
  case (Cons e es)
  note IH = Cons.IH[of "fire st e"]
  show ?case
  proof (cases e)
    case (HandleMotion ev now)
    from handleMotion_step[of st ev now] show ?thesis
    proof
      assume a: "stepCount (handleMotion st ev now) = stepCount st \<and>
        lastStepTime (handleMotion st ev now) = lastStepTime st"
      with IH HandleMotion show ?thesis by simp
    next
      assume a: "stepCount (handleMotion st ev now) = Suc (stepCount st) \<and>
        lastStepTime (handleMotion st ev now) = now \<and> now - lastStepTime st > minStepInterval"
      have pos: "0 < minStepInterval" by (simp add: minStepInterval_def)
      from a IH HandleMotion pos show ?thesis
        by fastforce
    qed
  next
    case (StartTracking p n)
    with IH lastStepTime_fire_other[of e st] show ?thesis by simp
  next
    case (StopTracking i)
    with IH lastStepTime_fire_other[of e st] show ?thesis by simp
  next
    case (UpdateTimer n)
    with IH lastStepTime_fire_other[of e st] show ?thesis by simp
  next
    case (DeleteWalk i)
    with IH lastStepTime_fire_other[of e st] show ?thesis by simp
  next
    case (SwitchPeriod p)
    with IH show ?thesis by simp
  qed
qed

text \<open>
  Claim C2. In every run, any two registered steps are more than \<open>minStepInterval\<close>
  (250 ms) apart. \<open>handleMotion\<close> registers a step exactly when the session is active, a
  reading is present, the smoothed magnitude is more than \<open>stepThreshold\<close> (1.2) away from
  9.8 and more than \<open>minStepInterval\<close> has passed since \<open>lastStepTime\<close>; it then sets
  \<open>lastStepTime\<close> to the current time, and leaves it alone otherwise.
\<close>

theorem steps_debounced:
  "minStepInterval = 250 \<and> stepThreshold = 12 / 10 \<and>
   sorted_wrt (\<lambda>a b. b - a > minStepInterval) (step_times st es) \<and>
   (stepCount (handleMotion st ev now) \<noteq> stepCount st \<longleftrightarrow>
      isTracking st \<and>
      (case accelerationIncludingGravity ev of
         None \<Rightarrow> False
       | Some a \<Rightarrow>
           \<bar>avgMagnitude (push_sample (accelerationBuffer st) (magnitude a)) - 98 / 10\<bar> > stepThreshold \<and>
           now - lastStepTime st > minStepInterval)) \<and>
   (stepCount (handleMotion st ev now) \<noteq> stepCount st \<longrightarrow>
      stepCount (handleMotion st ev now) = stepCount st + 1 \<and>
      lastStepTime (handleMotion st ev now) = now) \<and>
   (stepCount (handleMotion st ev now) = stepCount st \<longrightarrow>
      lastStepTime (handleMotion st ev now) = lastStepTime st)"
proof -
  have a: "sorted_wrt (\<lambda>a b. b - a > minStepInterval) (step_times st es)"
    using step_times_gap[of st es] by simp
  have b: "stepCount (handleMotion st ev now) \<noteq> stepCount st \<longleftrightarrow>
      isTracking st \<and>
      (case accelerationIncludingGravity ev of
         None \<Rightarrow> False
       | Some a \<Rightarrow>
           \<bar>avgMagnitude (push_sample (accelerationBuffer st) (magnitude a)) - 98 / 10\<bar> > stepThreshold \<and>
           now - lastStepTime st > minStepInterval)"
    by (auto simp: handleMotion_def registerStep_def Let_def split: option.splits)
  have c: "stepCount (handleMotion st ev now) \<noteq> stepCount st \<longrightarrow>
      stepCount (handleMotion st ev now) = stepCount st + 1 \<and>
      lastStepTime (handleMotion st ev now) = now"
    using handleMotion_step[of st ev now] by auto
  have d: "stepCount (handleMotion st ev now) = stepCount st \<longrightarrow>
      lastStepTime (handleMotion st ev now) = lastStepTime st"
    using handleMotion_step[of st ev now] by auto
  show ?thesis
    using a b c d by (simp add: minStepInterval_def stepThreshold_def)
qed

theorem steps_debounced_witness:
  "step_times (constructor None)
     [StartTracking Granted 1000,
      HandleMotion \<lparr>accelerationIncludingGravity = Some \<lparr>x_axis = Some 0, y_axis = Some 12, z_axis = None\<rparr>\<rparr> 1100,
      HandleMotion \<lparr>accelerationIncludingGravity = Some \<lparr>x_axis = Some 0, y_axis = Some 12, z_axis = None\<rparr>\<rparr> 1200,
      HandleMotion \<lparr>accelerationIncludingGravity = Some \<lparr>x_axis = Some 0, y_axis = Some 12, z_axis = None\<rparr>\<rparr> 1400]
     = [1100, 1400] \<and>
   sorted_wrt (\<lambda>a b. b - a > minStepInterval) [1100, 1400 :: int]"
proof -
  let ?e = "\<lparr>accelerationIncludingGravity = Some \<lparr>x_axis = Some 0, y_axis = Some 12, z_axis = None\<rparr>\<rparr>"
  let ?es = "[StartTracking Granted 1000, HandleMotion ?e 1100, HandleMotion ?e 1200, HandleMotion ?e 1400]"
  have ev: "step_times (constructor None) ?es = [1100, 1400]"
    by (simp add: constructor_def startTracking_def handleMotion_def push_sample_def bufferSize_def
          avgMagnitude_def magnitude_def or_zero_def stepThreshold_def minStepInterval_def
          registerStep_def Let_def)
  from steps_debounced[of "constructor None" ?es ?e 0] ev show ?thesis
    by simp
qed

lemma push_sample_length:
  "length buf \<le> bufferSize \<Longrightarrow> length (push_sample buf m) \<le> bufferSize"
  by (cases buf) (auto simp: push_sample_def Let_def)

lemma push_sample_fifo:
  "length buf \<le> bufferSize \<Longrightarrow>
     push_sample buf m = (if length buf < bufferSize then buf @ [m] else tl buf @ [m])"
  by (cases buf) (auto simp: push_sample_def Let_def bufferSize_def)

lemma buffer_fire:
  "length (accelerationBuffer st) \<le> bufferSize \<Longrightarrow>
     length (accelerationBuffer (fire st e)) \<le> bufferSize"
  by (cases e)
     (auto simp: startTracking_def stopTracking_def saveWalk_def updateTimer_def deleteWalk_def
        handleMotion_def registerStep_def Let_def push_sample_length split: option.splits)

lemma buffer_run:
  "length (accelerationBuffer st) \<le> bufferSize \<Longrightarrow>
     length (accelerationBuffer (run st evs)) \<le> bufferSize"
  unfolding run_def
  by (induction evs arbitrary: st) (simp_all add: buffer_fire)

lemma foldl_plus_sum: "foldl (\<lambda>a b. a + b) (a::real) xs = a + sum_list xs"
  by (induction xs arbitrary: a) simp_all

lemma avgMagnitude_mean: "avgMagnitude buf = sum_list buf / of_nat (length buf)"
  by (simp add: avgMagnitude_def foldl_plus_sum)

lemma push_all_last:
  "length buf \<le> bufferSize \<Longrightarrow>
     foldl push_sample buf ms = drop (length (buf @ ms) - bufferSize) (buf @ ms)"
proof (induction ms arbitrary: buf)
  case Nil
  then show ?case by simp
next
  case (Cons m ms)
  have l: "length (push_sample buf m) \<le> bufferSize"
    using Cons.prems by (rule push_sample_length)
  have "foldl push_sample (push_sample buf m) ms =
        drop (length (push_sample buf m @ ms) - bufferSize) (push_sample buf m @ ms)"
    by (rule Cons.IH[OF l])
  also have "\<dots> = drop (length (buf @ m # ms) - bufferSize) (buf @ m # ms)"
  proof (cases "length buf < bufferSize")
    case True
    then show ?thesis using Cons.prems by (simp add: push_sample_fifo)
  next
    case False
    then have eq: "length buf = bufferSize" using Cons.prems by simp
    then obtain b bs where buf: "buf = b # bs"
      by (cases buf) (auto simp: bufferSize_def)
    have ps: "push_sample buf m = bs @ [m]"
      using eq buf Cons.prems by (simp add: push_sample_fifo)
    have l1: "length ((bs @ [m]) @ ms) - bufferSize = length ms"
      using eq buf by simp
    have l2: "length (buf @ m # ms) - bufferSize = Suc (length ms)"
      using eq by simp
    show ?thesis
      unfolding ps l1 l2 by (simp add: buf)
  qed
  finally show ?case by simp
qed

text \<open>
  Claim C9. After any run the acceleration buffer holds at most \<open>bufferSize\<close> (4)
  magnitudes. A sample is appended and, once the buffer is full, the oldest is dropped,
  so after a series of samples the buffer is the last four of them. The smoothed value is
  the arithmetic mean of the buffer, and an axis that is missing counts as 0.
\<close>

theorem buffer_bounded:
  "bufferSize = 4 \<and>
   length (accelerationBuffer (run (constructor stored) evs)) \<le> bufferSize \<and>
   (length (accelerationBuffer st) \<le> bufferSize \<longrightarrow>
      length (accelerationBuffer (run st evs)) \<le> bufferSize) \<and>
   (isTracking st \<and> accelerationIncludingGravity ev = Some a \<and>
    length (accelerationBuffer st) \<le> bufferSize \<longrightarrow>
      accelerationBuffer (handleMotion st ev now) =
        (if length (accelerationBuffer st) < bufferSize
         then accelerationBuffer st @ [magnitude a]
         else tl (accelerationBuffer st) @ [magnitude a])) \<and>
   foldl push_sample [] ms = drop (length ms - bufferSize) ms \<and>
   avgMagnitude buf = sum_list buf / of_nat (length buf) \<and>
   magnitude \<lparr>x_axis = None, y_axis = Some v, z_axis = Some w\<rparr> =
     magnitude \<lparr>x_axis = Some 0, y_axis = Some v, z_axis = Some w\<rparr> \<and>
   magnitude \<lparr>x_axis = Some u, y_axis = None, z_axis = Some w\<rparr> =
     magnitude \<lparr>x_axis = Some u, y_axis = Some 0, z_axis = Some w\<rparr> \<and>
   magnitude \<lparr>x_axis = Some u, y_axis = Some v, z_axis = None\<rparr> =
     magnitude \<lparr>x_axis = Some u, y_axis = Some v, z_axis = Some 0\<rparr> \<and>
   magnitude \<lparr>x_axis = Some u, y_axis = Some v, z_axis = Some w\<rparr> = sqrt (u\<^sup>2 + v\<^sup>2 + w\<^sup>2)"
proof -
  have c: "length (accelerationBuffer (run (constructor stored) evs)) \<le> bufferSize"
    by (rule buffer_run) (simp add: constructor_def)
  have h: "isTracking st \<and> accelerationIncludingGravity ev = Some a \<and>
    length (accelerationBuffer st) \<le> bufferSize \<longrightarrow>
      accelerationBuffer (handleMotion st ev now) =
        (if length (accelerationBuffer st) < bufferSize
         then accelerationBuffer st @ [magnitude a]
         else tl (accelerationBuffer st) @ [magnitude a])"
    by (auto simp: handleMotion_def registerStep_def Let_def push_sample_fifo)
  have f: "foldl push_sample [] ms = drop (length ms - bufferSize) ms"
    using push_all_last[of "[]" ms] by simp
  have r: "length (accelerationBuffer st) \<le> bufferSize \<longrightarrow>
      length (accelerationBuffer (run st evs)) \<le> bufferSize"
    by (simp add: buffer_run)
  have m: "magnitude \<lparr>x_axis = None, y_axis = Some v, z_axis = Some w\<rparr> =
     magnitude \<lparr>x_axis = Some 0, y_axis = Some v, z_axis = Some w\<rparr> \<and>
   magnitude \<lparr>x_axis = Some u, y_axis = None, z_axis = Some w\<rparr> =
     magnitude \<lparr>x_axis = Some u, y_axis = Some 0, z_axis = Some w\<rparr> \<and>
   magnitude \<lparr>x_axis = Some u, y_axis = Some v, z_axis = None\<rparr> =
     magnitude \<lparr>x_axis = Some u, y_axis = Some v, z_axis = Some 0\<rparr> \<and>
   magnitude \<lparr>x_axis = Some u, y_axis = Some v, z_axis = Some w\<rparr> = sqrt (u\<^sup>2 + v\<^sup>2 + w\<^sup>2)"
    by (simp add: magnitude_def or_zero_def)
  have b4: "bufferSize = 4"
    by (simp add: bufferSize_def)
  from b4 c r h f m avgMagnitude_mean[of buf] show ?thesis
    by blast
qed

theorem buffer_bounded_witness:
  "accelerationBuffer
     (run (constructor None)
        [StartTracking Granted 0,
         HandleMotion \<lparr>accelerationIncludingGravity = Some \<lparr>x_axis = Some 1, y_axis = None, z_axis = None\<rparr>\<rparr> 10,
         HandleMotion \<lparr>accelerationIncludingGravity = Some \<lparr>x_axis = Some 2, y_axis = None, z_axis = None\<rparr>\<rparr> 20,
         HandleMotion \<lparr>accelerationIncludingGravity = Some \<lparr>x_axis = Some 3, y_axis = None, z_axis = None\<rparr>\<rparr> 30,
         HandleMotion \<lparr>accelerationIncludingGravity = Some \<lparr>x_axis = Some 4, y_axis = None, z_axis = None\<rparr>\<rparr> 40,
         HandleMotion \<lparr>accelerationIncludingGravity = Some \<lparr>x_axis = Some 5, y_axis = None, z_axis = None\<rparr>\<rparr> 50])
     = [2, 3, 4, 5] \<and>
   length [2, 3, 4, 5 :: real] \<le> bufferSize \<and>
   avgMagnitude [2, 3, 4, 5] = 7 / 2"
proof -
  let ?m = "\<lambda>v. \<lparr>accelerationIncludingGravity = Some \<lparr>x_axis = Some v, y_axis = None, z_axis = None\<rparr>\<rparr>"
  let ?es = "[StartTracking Granted 0, HandleMotion (?m 1) 10, HandleMotion (?m 2) 20,
              HandleMotion (?m 3) 30, HandleMotion (?m 4) 40, HandleMotion (?m 5) 50]"
  have ev: "accelerationBuffer (run (constructor None) ?es) = [2, 3, 4, 5]"
    by (simp add: run_def constructor_def startTracking_def handleMotion_def push_sample_def
          bufferSize_def avgMagnitude_def magnitude_def or_zero_def stepThreshold_def
          minStepInterval_def registerStep_def Let_def)
  from buffer_bounded[of None ?es "constructor None" "?m 1" "\<lparr>x_axis = Some 1, y_axis = None, z_axis = None\<rparr>"
                         0 "[]" "[2, 3, 4, 5]" 0 0 0]
       ev show ?thesis
    by (simp add: bufferSize_def)
qed

section \<open>The walk store: deletion and periods\<close>

lemma splice1_beyond: "int (length xs) \<le> i \<Longrightarrow> splice1 i xs = xs"
  by (simp add: splice1_def Let_def)

lemma splice1_inside:
  "0 \<le> i \<Longrightarrow> i < int (length xs) \<Longrightarrow> splice1 i xs = take (nat i) xs @ drop (Suc (nat i)) xs"
  by (simp add: splice1_def Let_def min_def Suc_nat_eq_nat_zadd1 add.commute)

lemma splice1_negative:
  "i < 0 \<Longrightarrow>
     splice1 i xs =
       (let j = nat (max (int (length xs) + i) 0) in take j xs @ drop (Suc j) xs)"
proof (cases "xs = []")
  case True
  then show ?thesis by (simp add: splice1_def Let_def)
next
  case False
  assume neg: "i < 0"
  define j where "j = max (int (length xs) + i) 0"
  have j0: "0 \<le> j" and jl: "j < int (length xs)"
    using neg False by (auto simp: j_def)
  have dc: "min (max 1 0) (int (length xs) - j) = 1"
    using jl by simp
  have "splice1 i xs = take (nat j) xs @ drop (nat (j + 1)) xs"
    using neg dc by (simp add: splice1_def Let_def j_def)
  also have "nat (j + 1) = Suc (nat j)"
    using j0 by simp
  finally show ?thesis
    by (simp add: Let_def j_def)
qed

lemma splice1_negative_length:
  assumes "i < 0" and "xs \<noteq> []"
  shows "length (splice1 i xs) = length xs - 1"
proof -
  define j where "j = nat (max (int (length xs) + i) 0)"
  have "0 < length xs"
    using assms(2) by simp
  then have jl: "j < length xs"
    using assms(1) unfolding j_def max_def by (simp split: if_splits; linarith)
  have "splice1 i xs = take j xs @ drop (Suc j) xs"
    using splice1_negative[OF assms(1), of xs] by (simp add: Let_def j_def)
  then show ?thesis
    using jl by simp
qed

text \<open>
  Claim C4, as the code has it. An index at or past the end of the collection is a
  silent no-op: \<open>deleteWalk\<close> leaves the walks as they are. An index inside the collection
  removes the walk at that position. A negative index is not a no-op: \<open>splice\<close> counts it
  from the end and clamps it to the first position, so on a collection that is not empty
  one walk is removed.
\<close>

theorem deleteWalk_index:
  "(int (length (walks st)) \<le> i \<longrightarrow> walks (deleteWalk st i) = walks st) \<and>
   (0 \<le> i \<and> i < int (length (walks st)) \<longrightarrow>
      walks (deleteWalk st i) = take (nat i) (walks st) @ drop (Suc (nat i)) (walks st)) \<and>
   (i < 0 \<longrightarrow>
      walks (deleteWalk st i) =
        (let j = nat (max (int (length (walks st)) + i) 0)
         in take j (walks st) @ drop (Suc j) (walks st))) \<and>
   (i < 0 \<and> walks st \<noteq> [] \<longrightarrow>
      length (walks (deleteWalk st i)) = length (walks st) - 1)"
proof -
  have w: "walks (deleteWalk st i) = splice1 i (walks st)"
    by (simp add: deleteWalk_def Let_def)
  show ?thesis
    unfolding w
    using splice1_beyond[of "walks st" i] splice1_inside[of i "walks st"]
      splice1_negative[of i "walks st"] splice1_negative_length[of i "walks st"]
    by blast
qed

theorem deleteWalk_index_witness:
  "walks (deleteWalk ((constructor None)\<lparr>walks :=
       [\<lparr>date = ''a'', duration = 2000, steps = 3, stepsPerMinute = Some 90\<rparr>]\<rparr>) 1)
     = [\<lparr>date = ''a'', duration = 2000, steps = 3, stepsPerMinute = Some 90\<rparr>] \<and>
   walks (deleteWalk ((constructor None)\<lparr>walks :=
       [\<lparr>date = ''a'', duration = 2000, steps = 3, stepsPerMinute = Some 90\<rparr>]\<rparr>) (- 1))
     = []"
  using deleteWalk_index
          [of "(constructor None)\<lparr>walks :=
                 [\<lparr>date = ''a'', duration = 2000, steps = 3, stepsPerMinute = Some 90\<rparr>]\<rparr>" 1]
        deleteWalk_index
          [of "(constructor None)\<lparr>walks :=
                 [\<lparr>date = ''a'', duration = 2000, steps = 3, stepsPerMinute = Some 90\<rparr>]\<rparr>" "- 1"]
  by (simp add: constructor_def)

text \<open>
  The claim as stated fails at index -1, which is out of range for a collection of one
  walk: the walk is removed.
\<close>

theorem deleteWalk_negative_index_counterexample:
  "\<not> (0 \<le> (- 1 :: int) \<and>
       (- 1 :: int) < int (length (walks ((constructor None)\<lparr>walks :=
          [\<lparr>date = ''a'', duration = 2000, steps = 3, stepsPerMinute = Some 90\<rparr>]\<rparr>)))) \<and>
   walks (deleteWalk ((constructor None)\<lparr>walks :=
       [\<lparr>date = ''a'', duration = 2000, steps = 3, stepsPerMinute = Some 90\<rparr>]\<rparr>) (- 1))
     \<noteq> walks ((constructor None)\<lparr>walks :=
       [\<lparr>date = ''a'', duration = 2000, steps = 3, stepsPerMinute = Some 90\<rparr>]\<rparr>)"
  by (simp add: constructor_def deleteWalk_def splice1_def Let_def)














end
